theory Spec2Isabelle
  imports Complex_Main
begin

text \<open>
  The scoring and aggregation logic of the education platform's API: grading of assignment
  submissions and manual grading (Assignment model), evaluation of writing practice and the
  completion of a saved practice session (Practice model and controller), view records of
  media (Media model), and the time windows, the overall progress score and the class
  engagement lists of the report and practice controllers. Each function of the source is
  a definition of the same name; methods that mutate a document take the document and
  return it changed, an exception is a value, and the clock is a parameter.
\<close>

section \<open>JavaScript primitives\<close>

text \<open>
  A JavaScript \<^verbatim>\<open>Number\<close> is modelled as an exact rational: the scoring code only adds,
  divides, compares and rounds, and the model does these without the rounding error of
  binary floating point. \<^verbatim>\<open>Math.round\<close> rounds to the nearest integer, a tie going up
  (towards plus infinity).
\<close>

type_synonym number = rat

definition jsRound :: "number \<Rightarrow> int" where
  "jsRound x = \<lfloor>x + 1 / 2\<rfloor>"


text \<open>
  An \<^verbatim>\<open>ObjectId\<close> is compared through \<^verbatim>\<open>toString()\<close> everywhere in the source; the
  model keeps the string.
\<close>

type_synonym objectId = string

text \<open>
  Strings are ASCII strings: \<^verbatim>\<open>toLowerCase\<close> maps \<open>A\<close>..\<open>Z\<close> to \<open>a\<close>..\<open>z\<close> and leaves every other
  character alone, and white space (what \<^verbatim>\<open>trim\<close> removes and the regular expression
  class \<^verbatim>\<open>\s\<close> matches) is tab, line feed, vertical tab, form feed, carriage return and
  space.
\<close>

definition isWhiteSpace :: "char \<Rightarrow> bool" where
  "isWhiteSpace c \<longleftrightarrow> (of_char c :: nat) \<in> {9, 10, 11, 12, 13, 32}"

definition isLowerAlpha :: "char \<Rightarrow> bool" where
  "isLowerAlpha c \<longleftrightarrow> 97 \<le> (of_char c :: nat) \<and> (of_char c :: nat) \<le> 122"

definition isDigit :: "char \<Rightarrow> bool" where
  "isDigit c \<longleftrightarrow> 48 \<le> (of_char c :: nat) \<and> (of_char c :: nat) \<le> 57"

definition toLowerChar :: "char \<Rightarrow> char" where
  "toLowerChar c =
     (if 65 \<le> (of_char c :: nat) \<and> (of_char c :: nat) \<le> 90
      then char_of ((of_char c :: nat) + 32) else c)"

definition toLowerCase :: "string \<Rightarrow> string" where
  "toLowerCase s = map toLowerChar s"

definition trim :: "string \<Rightarrow> string" where
  "trim s = rev (dropWhile isWhiteSpace (rev (dropWhile isWhiteSpace s)))"

text \<open>
  \<^verbatim>\<open>Array.prototype.findIndex\<close>: the index of the first element that satisfies the
  predicate, and \<open>-1\<close> when there is none.
\<close>

fun findIndexFrom :: "('a \<Rightarrow> bool) \<Rightarrow> 'a list \<Rightarrow> int \<Rightarrow> int" where
  "findIndexFrom P [] i = - 1"
| "findIndexFrom P (x # xs) i = (if P x then i else findIndexFrom P xs (i + 1))"

definition findIndex :: "('a \<Rightarrow> bool) \<Rightarrow> 'a list \<Rightarrow> int" where
  "findIndex P xs = findIndexFrom P xs 0"

text \<open>Instants (\<^verbatim>\<open>Date\<close> values stored in documents) are milliseconds since the epoch.\<close>

type_synonym time = int

section \<open>The Assignment model\<close>

datatype questionType = multiple_choice | short_answer | long_answer | true_false

text \<open>
  The schema of Assignment.js. \<^verbatim>\<open>correctAnswer\<close> is a String path that is neither required
  nor defaulted, so it can be absent (\<^verbatim>\<open>undefined\<close>); \<^verbatim>\<open>points\<close> has a default and a
  minimum. Fields that the two methods below never read (title, dueDate, classId, ...) are
  left out.
\<close>

record question =
  q_id :: objectId
  questionText :: string
  questionType :: questionType
  options :: "string list"
  correctAnswer :: "string option"
  points :: number
  order :: number

record answerInput =
  in_questionId :: objectId
  in_answer :: string

record processedAnswer =
  questionId :: objectId
  answer :: string
  isCorrect :: bool
  pointsEarned :: number

record submission =
  sub_studentId :: objectId
  sub_answers :: "processedAnswer list"
  sub_score :: number
  sub_percentage :: number
  sub_feedback :: "string option"
  sub_submittedAt :: time
  sub_gradedAt :: "time option"
  sub_gradedBy :: "objectId option"

record assignment =
  questions :: "question list"
  totalPoints :: number
  submissions :: "submission list"
  updatedAt :: time

text \<open>
  What a method can throw: the \<^verbatim>\<open>TypeError\<close> of calling \<^verbatim>\<open>toLowerCase\<close> on
  \<^verbatim>\<open>undefined\<close>, and \<^verbatim>\<open>new Error('Submission not found')\<close>.
\<close>

datatype error = TypeError | SubmissionNotFound

text \<open>
  The \<^verbatim>\<open>pre('save')\<close> hook: the total is recomputed only when the questions were
  modified, the timestamp always.
\<close>

definition preSave :: "bool \<Rightarrow> time \<Rightarrow> assignment \<Rightarrow> assignment" where
  "preSave questionsModified now this =
     (if questionsModified
      then this\<lparr>totalPoints := foldl (\<lambda>total question. total + points question) 0 (questions this),
                updatedAt := now\<rparr>
      else this\<lparr>updatedAt := now\<rparr>)"

text \<open>
  \<^verbatim>\<open>this.questions.id(answer.questionId)\<close>: the first question with that id, or null.
\<close>

definition questionById :: "question list \<Rightarrow> objectId \<Rightarrow> question option" where
  "questionById qs qid = find (\<lambda>q. q_id q = qid) qs"

text \<open>
  The body of the \<^verbatim>\<open>answers.map\<close> callback of \<^verbatim>\<open>submitAssignment\<close>; the running
  \<^verbatim>\<open>score\<close> that the callback adds to is passed through.
\<close>

definition processAnswer ::
  "question list \<Rightarrow> number \<Rightarrow> answerInput \<Rightarrow> error + (processedAnswer \<times> number)" where
  "processAnswer qs score a =
     (case questionById qs (in_questionId a) of
        None \<Rightarrow>
          Inr (\<lparr>questionId = in_questionId a, answer = in_answer a,
                 isCorrect = False, pointsEarned = 0\<rparr>, score)
      | Some question \<Rightarrow>
          (case correctAnswer question of
             None \<Rightarrow> Inl TypeError
           | Some ca \<Rightarrow>
               if trim (toLowerCase (in_answer a)) = trim (toLowerCase ca)
               then Inr (\<lparr>questionId = in_questionId a, answer = in_answer a,
                           isCorrect = True, pointsEarned = points question\<rparr>,
                         score + points question)
               else Inr (\<lparr>questionId = in_questionId a, answer = in_answer a,
                           isCorrect = False, pointsEarned = 0\<rparr>, score)))"

fun processAnswers ::
  "question list \<Rightarrow> number \<Rightarrow> answerInput list \<Rightarrow> error + (processedAnswer list \<times> number)" where
  "processAnswers qs score [] = Inr ([], score)"
| "processAnswers qs score (a # as) =
     (case processAnswer qs score a of
        Inl e \<Rightarrow> Inl e
      | Inr (pa, score') \<Rightarrow>
          (case processAnswers qs score' as of
             Inl e \<Rightarrow> Inl e
           | Inr (pas, score'') \<Rightarrow> Inr (pa # pas, score'')))"

text \<open>
  \<^verbatim>\<open>submitAssignment\<close>. The result is the exception thrown, if any, and the document
  as the method leaves it in memory; \<open>now\<close> is the clock. When the callback throws, the
  earlier submission has already been filtered out of the document in memory and nothing
  is saved.
\<close>

definition submitAssignment ::
  "assignment \<Rightarrow> objectId \<Rightarrow> answerInput list \<Rightarrow> time \<Rightarrow> error option \<times> assignment" where
  "submitAssignment this studentId answers now =
     (let this1 = this\<lparr>submissions :=
                   filter (\<lambda>submission. sub_studentId submission \<noteq> studentId) (submissions this)\<rparr>
      in case processAnswers (questions this1) 0 answers of
           Inl e \<Rightarrow> (Some e, this1)
         | Inr (processedAnswers, score) \<Rightarrow>
             (let percentage =
                    (if totalPoints this1 > 0
                     then of_int (jsRound ((score / totalPoints this1) * 100)) else 0)
              in (None,
                  preSave False now
                    (this1\<lparr>submissions := submissions this1 @
                       [\<lparr>sub_studentId = studentId, sub_answers = processedAnswers,
                         sub_score = score, sub_percentage = percentage,
                         sub_feedback = None, sub_submittedAt = now,
                         sub_gradedAt = None, sub_gradedBy = None\<rparr>]\<rparr>))))"


text \<open>
  The specification's reading of the grading of one answer: the matching question, the
  comparison of the trimmed, lower-cased texts, and the points awarded.
\<close>

definition textsMatch :: "string \<Rightarrow> string \<Rightarrow> bool" where
  "textsMatch submitted expected \<longleftrightarrow> trim (toLowerCase submitted) = trim (toLowerCase expected)"

definition markedCorrect :: "question list \<Rightarrow> answerInput \<Rightarrow> bool" where
  "markedCorrect qs a =
     (case questionById qs (in_questionId a) of
        None \<Rightarrow> False
      | Some q \<Rightarrow> (case correctAnswer q of
                     None \<Rightarrow> False
                   | Some ca \<Rightarrow> textsMatch (in_answer a) ca))"

definition awardedPoints :: "question list \<Rightarrow> answerInput \<Rightarrow> number" where
  "awardedPoints qs a =
     (case questionById qs (in_questionId a) of
        None \<Rightarrow> 0
      | Some q \<Rightarrow> (if markedCorrect qs a then points q else 0))"

definition gradedAnswer :: "question list \<Rightarrow> answerInput \<Rightarrow> processedAnswer" where
  "gradedAnswer qs a =
     \<lparr>questionId = in_questionId a, answer = in_answer a,
      isCorrect = markedCorrect qs a, pointsEarned = awardedPoints qs a\<rparr>"


text \<open>Every answer that finds its question finds a correct answer on it.\<close>

definition answerable :: "question list \<Rightarrow> answerInput list \<Rightarrow> bool" where
  "answerable qs answers =
     list_all (\<lambda>a. case questionById qs (in_questionId a) of
                      None \<Rightarrow> True
                    | Some q \<Rightarrow> correctAnswer q \<noteq> None) answers"

text \<open>A small assignment with two earlier submissions, and an answer sheet.\<close>

definition exampleQuestions :: "question list" where
  "exampleQuestions =
     [\<lparr>q_id = ''q1'', questionText = ''Capital of France?'', questionType = short_answer,
       options = [], correctAnswer = Some ''Paris'', points = 2, order = 1\<rparr>,
      \<lparr>q_id = ''q2'', questionText = ''Is 2 even?'', questionType = true_false,
       options = [''true'', ''false''], correctAnswer = Some ''true'', points = 3, order = 2\<rparr>]"

definition exampleSubmission :: "objectId \<Rightarrow> submission" where
  "exampleSubmission sid =
     \<lparr>sub_studentId = sid, sub_answers = [], sub_score = 0, sub_percentage = 0,
      sub_feedback = None, sub_submittedAt = 0, sub_gradedAt = None, sub_gradedBy = None\<rparr>"

definition exampleAssignment :: assignment where
  "exampleAssignment =
     \<lparr>questions = exampleQuestions, totalPoints = 5,
      submissions = [exampleSubmission ''amy'', exampleSubmission ''bob''], updatedAt = 0\<rparr>"

definition exampleAnswers :: "answerInput list" where
  "exampleAnswers =
     [\<lparr>in_questionId = ''q1'', in_answer = ''  PARIS ''\<rparr>,
      \<lparr>in_questionId = ''q2'', in_answer = ''false''\<rparr>]"




text \<open>An answer sheet whose only answer names a question the assignment does not have.\<close>

definition strayAnswers :: "answerInput list" where
  "strayAnswers = [\<lparr>in_questionId = ''q9'', in_answer = ''Paris''\<rparr>]"

section \<open>The Practice model\<close>

datatype practiceType = writing | typing | drawing

record keystroke =
  key :: string
  timestamp :: number
  k_isCorrect :: bool

record typingData =
  charactersPerMinute :: "number option"
  wordsPerMinute :: "number option"
  errorCount :: "number option"
  backspaceCount :: "number option"
  keystrokeData :: "keystroke list option"

text \<open>
  The schema of the practice model (the second document of Assignment.js), without the
  fields that the code below never reads (writingData, deviceInfo, feedback,
  assignmentId).
\<close>

record practice =
  p_studentId :: objectId
  p_type :: practiceType
  p_category :: string
  p_content :: string
  p_targetContent :: "string option"
  p_accuracy :: number
  p_strokes :: number
  p_timeSpent :: number
  p_attempts :: number
  p_difficulty :: string
  p_typingData :: typingData
  p_score :: number
  p_maxScore :: number
  p_isCompleted :: bool
  p_completionTime :: "number option"
  p_classId :: "objectId option"
  p_isActive :: bool
  p_date :: time
  p_updatedAt :: time

text \<open>\<^verbatim>\<open>!s\<close> for a string that may be absent: true of \<^verbatim>\<open>undefined\<close> and of the empty string.\<close>

definition falsy :: "string option \<Rightarrow> bool" where
  "falsy s = (case s of None \<Rightarrow> True | Some str \<Rightarrow> str = [])"

text \<open>
  \<^verbatim>\<open>str.toLowerCase().replace(/[^a-z0-9\s]/g, '').trim()\<close>: after lower-casing, every
  character that is not a lower-case letter, a digit or white space is deleted.
\<close>

definition normalize :: "string \<Rightarrow> string" where
  "normalize str =
     trim (filter (\<lambda>c. isLowerAlpha c \<or> isDigit c \<or> isWhiteSpace c) (toLowerCase str))"

text \<open>The \<^verbatim>\<open>for\<close> loop of \<^verbatim>\<open>calculateContentSimilarity\<close>, from index \<open>i\<close> on.\<close>

function matchLoop :: "string \<Rightarrow> string \<Rightarrow> nat \<Rightarrow> nat \<Rightarrow> nat \<Rightarrow> nat" where
  "matchLoop norm1 norm2 minLen i matches =
     (if i < minLen
      then matchLoop norm1 norm2 minLen (i + 1)
             (if norm1 ! i = norm2 ! i then matches + 1 else matches)
      else matches)"
  by pat_completeness auto
termination
  by (relation "measure (\<lambda>(norm1, norm2, minLen, i, matches). minLen - i)") auto

declare matchLoop.simps [simp del]

definition calculateContentSimilarity :: "string option \<Rightarrow> string option \<Rightarrow> number" where
  "calculateContentSimilarity content1 content2 =
     (if falsy content1 \<or> falsy content2 then 0
      else
        (let norm1 = normalize (the content1);
             norm2 = normalize (the content2)
         in if norm1 = norm2 then 1
            else
              (let len1 = length norm1;
                   len2 = length norm2;
                   maxLen = max len1 len2
               in if maxLen = 0 then 1
                  else
                    (let minLen = min len1 len2;
                         matches = matchLoop norm1 norm2 minLen 0 0
                     in of_nat matches / of_nat maxLen))))"

definition evaluateWriting :: "practice \<Rightarrow> practice" where
  "evaluateWriting this =
     (if p_type this \<noteq> writing \<or> falsy (p_targetContent this) then this
      else
        (let similarity = calculateContentSimilarity (Some (p_content this)) (p_targetContent this);
             this1 = this\<lparr>p_accuracy := of_int (jsRound (similarity * 100))\<rparr>
         in this1\<lparr>p_score := of_int (jsRound ((p_accuracy this1 / 100) * p_maxScore this1))\<rparr>))"

definition calculateTypingMetrics :: "practice \<Rightarrow> practice" where
  "calculateTypingMetrics this =
     (if p_type this \<noteq> typing then this
      else
        (case keystrokeData (p_typingData this) of
           None \<Rightarrow> this
         | Some keystrokes \<Rightarrow>
             (let totalTime = p_timeSpent this / 60;
                  correctKeystrokes = length (filter k_isCorrect keystrokes);
                  cpm = (if totalTime > 0
                         then of_int (jsRound (of_nat correctKeystrokes / totalTime)) else 0);
                  wpm = (if totalTime > 0 then of_int (jsRound (cpm / 5)) else 0)
              in this\<lparr>p_typingData := (p_typingData this)
                   \<lparr>charactersPerMinute := Some cpm,
                    wordsPerMinute := Some wpm,
                    errorCount := Some (of_nat (length keystrokes) - of_nat correctKeystrokes)\<rparr>\<rparr>)))"



section \<open>Practice controller: saving a session\<close>

text \<open>
  The request body of \<^verbatim>\<open>savePractice\<close>, as the route's validation admits it: the type and
  the content are present, every other field may be missing.
\<close>

record practiceBody =
  b_type :: practiceType
  b_category :: string
  b_content :: string
  b_targetContent :: "string option"
  b_accuracy :: "number option"
  b_strokes :: "number option"
  b_timeSpent :: "number option"
  b_attempts :: "number option"
  b_difficulty :: "string option"
  b_typingData :: "typingData option"
  b_classId :: "objectId option"

text \<open>\<^verbatim>\<open>x || d\<close> on a number that may be absent: \<open>d\<close> when \<open>x\<close> is \<^verbatim>\<open>undefined\<close> or 0.\<close>

definition orDefault :: "number option \<Rightarrow> number \<Rightarrow> number" where
  "orDefault x d = (case x of None \<Rightarrow> d | Some v \<Rightarrow> if v = 0 then d else v)"

text \<open>
  \<^verbatim>\<open>new Practice({...})\<close> with the defaults of the schema for the paths the controller does
  not set.
\<close>

definition newPractice :: "objectId \<Rightarrow> practiceBody \<Rightarrow> time \<Rightarrow> practice" where
  "newPractice studentId body now =
     \<lparr>p_studentId = studentId,
      p_type = b_type body,
      p_category = b_category body,
      p_content = b_content body,
      p_targetContent = b_targetContent body,
      p_accuracy = orDefault (b_accuracy body) 0,
      p_strokes = orDefault (b_strokes body) 0,
      p_timeSpent = orDefault (b_timeSpent body) 0,
      p_attempts = orDefault (b_attempts body) 1,
      p_difficulty = (case b_difficulty body of None \<Rightarrow> ''easy''
                      | Some d \<Rightarrow> if d = [] then ''easy'' else d),
      p_typingData = (case b_typingData body of
                        None \<Rightarrow> \<lparr>charactersPerMinute = None, wordsPerMinute = None,
                                  errorCount = None, backspaceCount = None,
                                  keystrokeData = Some []\<rparr>
                      | Some t \<Rightarrow> t),
      p_score = 0,
      p_maxScore = 100,
      p_isCompleted = False,
      p_completionTime = None,
      p_classId = b_classId body,
      p_isActive = True,
      p_date = now,
      p_updatedAt = now\<rparr>"

datatype saveResponse = ValidationFailed | AccessDenied | Created practice

text \<open>
  \<^verbatim>\<open>savePractice\<close>. The outcome of the route's validation and the lookup of a class's
  students are parameters. The completion test reads \<^verbatim>\<open>accuracy\<close>, the variable
  destructured from the request body (\<^verbatim>\<open>undefined >= 80\<close> is false), and
  \<^verbatim>\<open>practice.attempts\<close>, the field of the session.
\<close>

definition savePractice ::
  "bool \<Rightarrow> (objectId \<Rightarrow> objectId list option) \<Rightarrow> objectId \<Rightarrow> practiceBody \<Rightarrow> time
     \<Rightarrow> saveResponse" where
  "savePractice validationOk classStudents studentId body now =
     (if \<not> validationOk then ValidationFailed
      else if (case b_classId body of
                 None \<Rightarrow> False
               | Some classId \<Rightarrow>
                   (case classStudents classId of
                      None \<Rightarrow> True
                    | Some students \<Rightarrow> studentId \<notin> set students))
      then AccessDenied
      else
        (let practice = newPractice studentId body now;
             practice1 =
               (if b_type body = typing \<and> b_typingData body \<noteq> None
                then calculateTypingMetrics practice
                else if b_type body = writing \<and> \<not> falsy (b_targetContent body)
                then evaluateWriting practice
                else practice);
             practice2 =
               (if (case b_accuracy body of None \<Rightarrow> False | Some accuracy \<Rightarrow> accuracy \<ge> 80)
                   \<or> p_attempts practice1 \<ge> 3
                then practice1\<lparr>p_isCompleted := True, p_completionTime := b_timeSpent body\<rparr>
                else practice1)
         in Created (practice2\<lparr>p_updatedAt := now\<rparr>)))"

text \<open>Two request bodies for a writing session, and the session built from the first.\<close>

definition writingBody :: "string \<Rightarrow> string \<Rightarrow> practiceBody" where
  "writingBody content target =
     \<lparr>b_type = writing, b_category = ''word'', b_content = content,
      b_targetContent = Some target, b_accuracy = None, b_strokes = None,
      b_timeSpent = Some 30, b_attempts = None, b_difficulty = None,
      b_typingData = None, b_classId = None\<rparr>"

definition writingPractice :: "string \<Rightarrow> string \<Rightarrow> practice" where
  "writingPractice content target = newPractice ''amy'' (writingBody content target) 1000"

section \<open>The Media model\<close>

text \<open>
  The view records of a media document (part_000), and the document with the fields that
  \<^verbatim>\<open>addView\<close> touches.
\<close>

record view =
  v_studentId :: objectId
  v_percentage :: number
  v_date :: time

record media =
  views :: "view list"
  m_updatedAt :: time

text \<open>
  \<^verbatim>\<open>addView(studentId, percentage = 0)\<close>: the default parameter replaces an absent
  (\<^verbatim>\<open>undefined\<close>) percentage by 0. The document is saved, which stamps \<^verbatim>\<open>updatedAt\<close>.
\<close>

definition addView :: "media \<Rightarrow> objectId \<Rightarrow> number option \<Rightarrow> time \<Rightarrow> media" where
  "addView this studentId percentageArg now =
     (let percentage = (case percentageArg of None \<Rightarrow> 0 | Some p \<Rightarrow> p);
          existingViewIndex = findIndex (\<lambda>view. v_studentId view = studentId) (views this)
      in (if existingViewIndex \<ge> 0
          then this\<lparr>views := (views this)
                  [nat existingViewIndex :=
                     (views this ! nat existingViewIndex)
                       \<lparr>v_percentage :=
                          max (v_percentage (views this ! nat existingViewIndex)) percentage,
                        v_date := now\<rparr>]\<rparr>
          else this\<lparr>views := views this @
                  [\<lparr>v_studentId = studentId, v_percentage = percentage, v_date = now\<rparr>]\<rparr>)
         \<lparr>m_updatedAt := now\<rparr>)"

text \<open>
  The specification's reading: the view records of one student, the invariant (at most
  one record per student), and the percentage stored for a student.
\<close>

definition viewsOf :: "media \<Rightarrow> objectId \<Rightarrow> view list" where
  "viewsOf m sid = filter (\<lambda>v. v_studentId v = sid) (views m)"

definition oneViewPerStudent :: "media \<Rightarrow> bool" where
  "oneViewPerStudent m = distinct (map v_studentId (views m))"

definition storedPercentage :: "media \<Rightarrow> objectId \<Rightarrow> number option" where
  "storedPercentage m sid = map_option v_percentage (find (\<lambda>v. v_studentId v = sid) (views m))"

text \<open>A sequence of views, each a student, a percentage and a time, on one document.\<close>

fun addViews :: "media \<Rightarrow> (objectId \<times> number option \<times> time) list \<Rightarrow> media" where
  "addViews m [] = m"
| "addViews m ((sid, p, t) # rest) = addViews (addView m sid p t) rest"

definition freshMedia :: media where
  "freshMedia = \<lparr>views = [], m_updatedAt = 0\<rparr>"

text \<open>The percentage that a call passes, with the default of the parameter.\<close>

definition givenPercentage :: "number option \<Rightarrow> number" where
  "givenPercentage p = (case p of None \<Rightarrow> 0 | Some q \<Rightarrow> q)"

section \<open>Time windows\<close>

text \<open>
  The controllers read \<^verbatim>\<open>now = new Date()\<close> through \<^verbatim>\<open>getTime()\<close> (milliseconds since the
  epoch) and through the local calendar fields \<^verbatim>\<open>getFullYear()\<close>, \<^verbatim>\<open>getMonth()\<close> (from 0)
  and \<^verbatim>\<open>getDate()\<close>; the record holds these four readings. A start date is built either
  from milliseconds, \<^verbatim>\<open>new Date(ms)\<close>, or from calendar fields,
  \<^verbatim>\<open>new Date(year, monthIndex, day)\<close>, which is the local midnight that begins that day.
\<close>

record clock =
  getTime :: int
  getFullYear :: int
  getMonth :: int
  getDate :: int

datatype startDate = AtTime int | AtLocalMidnight int int int

text \<open>
  The \<^verbatim>\<open>switch (period)\<close> of each endpoint. The period comes from the query string and
  may be absent, in which case the destructuring default of the endpoint applies.
\<close>

definition getStudentProgressReport_startDate :: "string option \<Rightarrow> clock \<Rightarrow> startDate" where
  "getStudentProgressReport_startDate periodArg now =
     (let period = (case periodArg of None \<Rightarrow> ''month'' | Some p \<Rightarrow> p)
      in if period = ''week'' then AtTime (getTime now - 7 * 24 * 60 * 60 * 1000)
         else if period = ''month'' then AtTime (getTime now - 30 * 24 * 60 * 60 * 1000)
         else if period = ''quarter'' then AtTime (getTime now - 90 * 24 * 60 * 60 * 1000)
         else if period = ''year'' then AtLocalMidnight (getFullYear now) 0 1
         else AtTime (getTime now - 30 * 24 * 60 * 60 * 1000))"

definition getClassAnalytics_startDate :: "string option \<Rightarrow> clock \<Rightarrow> startDate" where
  "getClassAnalytics_startDate periodArg now =
     (let period = (case periodArg of None \<Rightarrow> ''month'' | Some p \<Rightarrow> p)
      in if period = ''week'' then AtTime (getTime now - 7 * 24 * 60 * 60 * 1000)
         else if period = ''month'' then AtTime (getTime now - 30 * 24 * 60 * 60 * 1000)
         else if period = ''quarter'' then AtTime (getTime now - 90 * 24 * 60 * 60 * 1000)
         else AtTime (getTime now - 30 * 24 * 60 * 60 * 1000))"

definition getPracticeStats_startDate :: "string option \<Rightarrow> clock \<Rightarrow> startDate" where
  "getPracticeStats_startDate periodArg now =
     (let period = (case periodArg of None \<Rightarrow> ''week'' | Some p \<Rightarrow> p)
      in if period = ''day'' then AtLocalMidnight (getFullYear now) (getMonth now) (getDate now)
         else if period = ''week'' then AtTime (getTime now - 7 * 24 * 60 * 60 * 1000)
         else if period = ''month'' then AtLocalMidnight (getFullYear now) (getMonth now) 1
         else if period = ''year'' then AtLocalMidnight (getFullYear now) 0 1
         else AtTime (getTime now - 7 * 24 * 60 * 60 * 1000))"

text \<open>The specification's windows: a number of days before now, in milliseconds.\<close>

definition daysBefore :: "clock \<Rightarrow> int \<Rightarrow> startDate" where
  "daysBefore now n = AtTime (getTime now - n * 86400000)"

definition exampleNow :: clock where
  "exampleNow = \<lparr>getTime = 1800000000000, getFullYear = 2027, getMonth = 0, getDate = 15\<rparr>"

section \<open>Report controller: class analytics\<close>



















section \<open>Report controller: the overall progress score\<close>


record assignmentPerf =
  ap_className :: string
  ap_totalAssignments :: nat
  ap_averageScore :: number
  ap_averagePercentage :: number
  ap_totalPoints :: number
  ap_earnedPoints :: number

record mediaCons =
  mc_className :: string
  mc_totalVideos :: nat
  mc_averageWatchPercentage :: number
  mc_totalWatchTime :: number







section \<open>Properties\<close>

subsection \<open>Rounding\<close>



subsection \<open>The overall progress score\<close>







subsection \<open>Grading a submission\<close>

lemma processAnswer_answerable:
  assumes "case questionById qs (in_questionId a) of None \<Rightarrow> True | Some q \<Rightarrow> correctAnswer q \<noteq> None"
  shows "processAnswer qs s a = Inr (gradedAnswer qs a, s + awardedPoints qs a)"
  using assms
  by (auto simp: processAnswer_def gradedAnswer_def awardedPoints_def markedCorrect_def
      textsMatch_def split: option.splits)

lemma processAnswers_answerable:
  assumes "answerable qs as"
  shows "processAnswers qs s as =
           Inr (map (gradedAnswer qs) as, s + sum_list (map (awardedPoints qs) as))"
  using assms
proof (induction as arbitrary: s)
  case Nil
  then show ?case by simp
next
  case (Cons a as)
  from Cons.prems have one:
    "case questionById qs (in_questionId a) of None \<Rightarrow> True | Some q \<Rightarrow> correctAnswer q \<noteq> None"
    and rest: "answerable qs as"
    by (simp_all add: answerable_def)
  show ?case
    by (simp add: processAnswer_answerable [OF one] Cons.IH [OF rest] add.assoc)
qed






subsection \<open>One submission per student\<close>

text \<open>
  C4. After \<^verbatim>\<open>submitAssignment\<close> completes for a student, the submissions hold exactly one
  entry with the student's id, the one just submitted (the last of the list, stamped with
  the current time), whatever the list held before; the submissions of the other students
  are the same as before, in the same order.
\<close>

theorem submitAssignment_one_submission:
  assumes "submitAssignment a sid answers now = (None, a')"
  shows "filter (\<lambda>s. sub_studentId s = sid) (submissions a') = [last (submissions a')]
       \<and> sub_submittedAt (last (submissions a')) = now
       \<and> length (filter (\<lambda>s. sub_studentId s = sid) (submissions a')) = 1
       \<and> filter (\<lambda>s. sub_studentId s \<noteq> sid) (submissions a')
           = filter (\<lambda>s. sub_studentId s \<noteq> sid) (submissions a)"
  using assms
  by (auto simp: submitAssignment_def Let_def preSave_def split: sum.splits prod.splits)

text \<open>
  The example: amy resubmits; her earlier submission is gone, the new one is the only one
  of hers, and the submission of bob is untouched.
\<close>

theorem submitAssignment_one_submission_witness:
  "map sub_studentId (submissions (snd (submitAssignment exampleAssignment ''amy'' exampleAnswers 1000)))
     = [''bob'', ''amy'']
   \<and> length (filter (\<lambda>s. sub_studentId s = ''amy'')
         (submissions (snd (submitAssignment exampleAssignment ''amy'' exampleAnswers 1000)))) = 1
   \<and> filter (\<lambda>s. sub_studentId s \<noteq> ''amy'')
         (submissions (snd (submitAssignment exampleAssignment ''amy'' exampleAnswers 1000)))
       = [exampleSubmission ''bob'']"
proof -
  obtain a' where run: "submitAssignment exampleAssignment ''amy'' exampleAnswers 1000 = (None, a')"
    and ids: "map sub_studentId (submissions a') = [''bob'', ''amy'']"
  proof
    show "submitAssignment exampleAssignment ''amy'' exampleAnswers 1000
            = (None, snd (submitAssignment exampleAssignment ''amy'' exampleAnswers 1000))"
      by code_simp
    show "map sub_studentId
            (submissions (snd (submitAssignment exampleAssignment ''amy'' exampleAnswers 1000)))
            = [''bob'', ''amy'']"
      by code_simp
  qed
  have old: "filter (\<lambda>s. sub_studentId s \<noteq> ''amy'') (submissions exampleAssignment)
               = [exampleSubmission ''bob'']"
    by code_simp
  from submitAssignment_one_submission [OF run] ids old run show ?thesis
    by simp
qed

subsection \<open>Manual grading\<close>

lemma findIndexFrom_none:
  "(\<forall>x\<in>set xs. \<not> P x) \<Longrightarrow> findIndexFrom P xs k = - 1"
  by (induction xs arbitrary: k) simp_all

lemma findIndexFrom_some:
  "\<exists>x\<in>set xs. P x \<Longrightarrow>
     \<exists>i<length xs. P (xs ! i) \<and> list_all (\<lambda>x. \<not> P x) (take i xs)
        \<and> findIndexFrom P xs k = k + int i"
proof (induction xs arbitrary: k)
  case Nil
  then show ?case by simp
next
  case (Cons x xs)
  show ?case
  proof (cases "P x")
    case True
    then have "0 < length (x # xs) \<and> P ((x # xs) ! 0) \<and> list_all (\<lambda>x. \<not> P x) (take 0 (x # xs))
        \<and> findIndexFrom P (x # xs) k = k + int 0"
      by simp
    then show ?thesis by blast
  next
    case False
    with Cons.prems have "\<exists>y\<in>set xs. P y" by simp
    from Cons.IH [OF this, of "k + 1"] obtain i where
      i: "i < length xs" "P (xs ! i)" "list_all (\<lambda>x. \<not> P x) (take i xs)"
         "findIndexFrom P xs (k + 1) = k + 1 + int i"
      by blast
    with False have "Suc i < length (x # xs) \<and> P ((x # xs) ! Suc i)
        \<and> list_all (\<lambda>x. \<not> P x) (take (Suc i) (x # xs))
        \<and> findIndexFrom P (x # xs) k = k + int (Suc i)"
      by simp
    then show ?thesis by blast
  qed
qed

lemma findIndex_none: "(\<forall>x\<in>set xs. \<not> P x) \<Longrightarrow> findIndex P xs = - 1"
  by (simp add: findIndex_def findIndexFrom_none)

lemma findIndex_some:
  "\<exists>x\<in>set xs. P x \<Longrightarrow>
     \<exists>i<length xs. P (xs ! i) \<and> list_all (\<lambda>x. \<not> P x) (take i xs) \<and> findIndex P xs = int i"
  using findIndexFrom_some [of xs P 0] by (simp add: findIndex_def)



subsection \<open>Answers to questions that do not exist\<close>

lemma processAnswer_no_notfound:
  "processAnswer qs s a \<noteq> Inl SubmissionNotFound"
  by (simp add: processAnswer_def split: option.splits)

lemma processAnswers_no_notfound:
  "processAnswers qs s as \<noteq> Inl SubmissionNotFound"
  by (induction as arbitrary: s) (auto simp: processAnswer_no_notfound split: sum.splits prod.splits)

text \<open>
  Outside the hypothesis of C1: an answer whose question has no correct answer makes the
  comparison throw, and nothing is graded or saved.
\<close>

lemma submitAssignment_missing_correctAnswer:
  assumes "questionById (questions a) (in_questionId x) = Some q" and "correctAnswer q = None"
  shows "submitAssignment a sid (x # rest) now =
           (Some TypeError,
            a\<lparr>submissions := filter (\<lambda>s. sub_studentId s \<noteq> sid) (submissions a)\<rparr>)"
  using assms by (simp add: submitAssignment_def processAnswer_def Let_def)

lemma submitAssignment_never_not_found:
  "fst (submitAssignment a sid answers now) \<noteq> Some SubmissionNotFound"
  using processAnswers_no_notfound [of "questions a" 0 answers]
  by (auto simp: submitAssignment_def Let_def split: sum.splits prod.splits)

text \<open>
  C6, as amended. When a submitted answer names a question id that the assignment does not
  have (and every answer that does find its question finds a correct answer on it),
  \<^verbatim>\<open>submitAssignment\<close> raises no failure: the call succeeds, that answer is stored with
  \<open>isCorrect = False\<close> and \<open>pointsEarned = 0\<close>, and the score is the sum of the points awarded
  to the other answers.
\<close>

theorem submitAssignment_absent_question:
  assumes "answerable (questions a) answers"
    and "x \<in> set answers"
    and "questionById (questions a) (in_questionId x) = None"
  shows "fst (submitAssignment a sid answers now) = None
       \<and> \<lparr>questionId = in_questionId x, answer = in_answer x, isCorrect = False, pointsEarned = 0\<rparr>
            \<in> set (sub_answers (last (submissions (snd (submitAssignment a sid answers now)))))
       \<and> sub_score (last (submissions (snd (submitAssignment a sid answers now))))
            = sum_list (map (awardedPoints (questions a)) (filter (\<lambda>y. y \<noteq> x) answers))"
proof -
  have gx: "gradedAnswer (questions a) x =
      \<lparr>questionId = in_questionId x, answer = in_answer x, isCorrect = False, pointsEarned = 0\<rparr>"
    using assms(3) by (simp add: gradedAnswer_def markedCorrect_def awardedPoints_def)
  have zero: "awardedPoints (questions a) x = 0"
    using assms(3) by (simp add: awardedPoints_def)
  have drop: "sum_list (map (awardedPoints (questions a)) ys)
                = sum_list (map (awardedPoints (questions a)) (filter (\<lambda>y. y \<noteq> x) ys))" for ys
    by (induction ys) (simp_all add: zero)
  have run: "submitAssignment a sid answers now =
     (None, preSave False now (a\<lparr>submissions :=
        filter (\<lambda>s. sub_studentId s \<noteq> sid) (submissions a) @
        [\<lparr>sub_studentId = sid,
          sub_answers = map (gradedAnswer (questions a)) answers,
          sub_score = sum_list (map (awardedPoints (questions a)) answers),
          sub_percentage =
            (if totalPoints a > 0
             then of_int (jsRound ((sum_list (map (awardedPoints (questions a)) answers)
                                     / totalPoints a) * 100)) else 0),
          sub_feedback = None, sub_submittedAt = now,
          sub_gradedAt = None, sub_gradedBy = None\<rparr>]\<rparr>))"
    by (simp add: submitAssignment_def Let_def processAnswers_answerable [OF assms(1)])
  have "gradedAnswer (questions a) x \<in> set (map (gradedAnswer (questions a)) answers)"
    using assms(2) by simp
  then show ?thesis
    using drop [of answers] by (simp add: run preSave_def gx)
qed

text \<open>
  As stated, C6 asks for a failure. The call below names the question \<open>q9\<close>, which the
  example assignment does not have, and it succeeds with zero points.
\<close>

theorem submitAssignment_absent_question_counterexample:
  "submitAssignment exampleAssignment ''amy'' strayAnswers 1000 =
     (None,
      \<lparr>questions = exampleQuestions, totalPoints = 5,
       submissions =
         [exampleSubmission ''bob'',
          \<lparr>sub_studentId = ''amy'',
           sub_answers =
             [\<lparr>questionId = ''q9'', answer = ''Paris'', isCorrect = False, pointsEarned = 0\<rparr>],
           sub_score = 0, sub_percentage = 0, sub_feedback = None, sub_submittedAt = 1000,
           sub_gradedAt = None, sub_gradedBy = None\<rparr>],
       updatedAt = 1000\<rparr>)
   \<and> questionById (questions exampleAssignment) ''q9'' = None"
  by code_simp

text \<open>The amended statement at an answer sheet with one stray answer and two real ones.\<close>

theorem submitAssignment_absent_question_witness:
  "fst (submitAssignment exampleAssignment ''amy''
          (\<lparr>in_questionId = ''q9'', in_answer = ''Paris''\<rparr> # exampleAnswers) 1000) = None
   \<and> \<lparr>questionId = ''q9'', answer = ''Paris'', isCorrect = False, pointsEarned = 0\<rparr>
        \<in> set (sub_answers (last (submissions (snd (submitAssignment exampleAssignment ''amy''
              (\<lparr>in_questionId = ''q9'', in_answer = ''Paris''\<rparr> # exampleAnswers) 1000)))))
   \<and> sub_score (last (submissions (snd (submitAssignment exampleAssignment ''amy''
              (\<lparr>in_questionId = ''q9'', in_answer = ''Paris''\<rparr> # exampleAnswers) 1000)))) = 2"
proof -
  let ?x = "\<lparr>in_questionId = ''q9'', in_answer = ''Paris''\<rparr>"
  have ok: "answerable (questions exampleAssignment) (?x # exampleAnswers)"
    by code_simp
  have mem: "?x \<in> set (?x # exampleAnswers)"
    by simp
  have absent: "questionById (questions exampleAssignment) (in_questionId ?x) = None"
    by code_simp
  have pts: "sum_list (map (awardedPoints (questions exampleAssignment))
               (filter (\<lambda>y. y \<noteq> ?x) (?x # exampleAnswers))) = 2"
    by code_simp
  from submitAssignment_absent_question [OF ok mem absent, of "''amy''" 1000] pts
  show ?thesis by simp
qed

subsection \<open>Writing evaluation\<close>






text \<open>
  Outside these hypotheses the guards of the source decide: a session that is not a writing
  session or has no target is left as it is, and an empty content has similarity 0.
\<close>

lemma evaluateWriting_guards:
  "p_type p \<noteq> writing \<Longrightarrow> evaluateWriting p = p"
  "falsy (p_targetContent p) \<Longrightarrow> evaluateWriting p = p"
  "calculateContentSimilarity (Some []) t = 0"
  by (simp_all add: evaluateWriting_def calculateContentSimilarity_def falsy_def)

subsection \<open>Completion of a saved session\<close>

lemma evaluateWriting_keeps:
  "p_attempts (evaluateWriting p) = p_attempts p"
  "p_isCompleted (evaluateWriting p) = p_isCompleted p"
  by (simp_all add: evaluateWriting_def Let_def)

lemma calculateTypingMetrics_keeps:
  "p_attempts (calculateTypingMetrics p) = p_attempts p"
  "p_isCompleted (calculateTypingMetrics p) = p_isCompleted p"
  by (simp_all add: calculateTypingMetrics_def Let_def split: option.splits)

text \<open>
  What the controller does: the session is completed exactly when the accuracy sent in the
  request is at least 80 or the attempts of the session are at least 3.
\<close>

lemma savePractice_completion:
  assumes "savePractice ok cls sid body now = Created p"
  shows "p_isCompleted p \<longleftrightarrow>
           (case b_accuracy body of None \<Rightarrow> False | Some accuracy \<Rightarrow> accuracy \<ge> 80)
           \<or> p_attempts p \<ge> 3"
proof -
  define p1 where "p1 =
    (if b_type body = typing \<and> b_typingData body \<noteq> None
     then calculateTypingMetrics (newPractice sid body now)
     else if b_type body = writing \<and> \<not> falsy (b_targetContent body)
     then evaluateWriting (newPractice sid body now)
     else newPractice sid body now)"
  have keeps: "p_isCompleted p1 = False"
    by (simp add: p1_def evaluateWriting_keeps calculateTypingMetrics_keeps newPractice_def)
  let ?c = "(case b_accuracy body of None \<Rightarrow> False | Some accuracy \<Rightarrow> accuracy \<ge> 80)
              \<or> p_attempts p1 \<ge> 3"
  have unf: "savePractice ok cls sid body now =
     (if \<not> ok then ValidationFailed
      else if (case b_classId body of
                 None \<Rightarrow> False
               | Some classId \<Rightarrow>
                   (case cls classId of
                      None \<Rightarrow> True
                    | Some students \<Rightarrow> sid \<notin> set students))
      then AccessDenied
      else Created ((if ?c then p1\<lparr>p_isCompleted := True, p_completionTime := b_timeSpent body\<rparr>
                           else p1)\<lparr>p_updatedAt := now\<rparr>))"
    unfolding savePractice_def p1_def Let_def ..
  from assms have p: "p = (if ?c then p1\<lparr>p_isCompleted := True, p_completionTime := b_timeSpent body\<rparr>
                           else p1)\<lparr>p_updatedAt := now\<rparr>"
    unfolding unf by (auto split: if_splits)
  show ?thesis
    by (cases ?c) (simp_all add: p keeps)
qed

text \<open>
  C10 asks that a saved session be completed whenever the accuracy it holds when it is
  saved is at least 80, and names the accuracy recomputed for a writing session. The
  request below is a writing session whose content equals its target and that sends no
  accuracy: the session is saved with the recomputed accuracy 100 and score 100, and it is
  saved not completed, without a completion time.
\<close>

theorem savePractice_stale_accuracy:
  "savePractice True (\<lambda>c. None) ''amy'' (writingBody ''hello'' ''hello'') 1000 =
     Created ((writingPractice ''hello'' ''hello'')\<lparr>p_accuracy := 100, p_score := 100\<rparr>)
   \<and> p_accuracy ((writingPractice ''hello'' ''hello'')\<lparr>p_accuracy := 100, p_score := 100\<rparr>) = 100
   \<and> p_isCompleted ((writingPractice ''hello'' ''hello'')\<lparr>p_accuracy := 100, p_score := 100\<rparr>)
        = False
   \<and> p_completionTime ((writingPractice ''hello'' ''hello'')\<lparr>p_accuracy := 100, p_score := 100\<rparr>)
        = None"
  by code_simp

subsection \<open>Recording a view\<close>

lemma find_None_iff_notin: "find P xs = None \<longleftrightarrow> (\<forall>x\<in>set xs. \<not> P x)"
  by (induction xs) auto

lemma addView_first:
  assumes "sid \<notin> v_studentId ` set (views m)"
  shows "views (addView m sid p now) =
           views m @ [\<lparr>v_studentId = sid,
                       v_percentage = (case p of None \<Rightarrow> 0 | Some q \<Rightarrow> q), v_date = now\<rparr>]"
proof -
  from assms have "\<forall>v\<in>set (views m). \<not> v_studentId v = sid"
    by auto
  from findIndex_none [of "views m" "\<lambda>v. v_studentId v = sid", OF this] show ?thesis
    by (simp add: addView_def Let_def)
qed

lemma addView_again:
  assumes "sid \<in> v_studentId ` set (views m)"
  shows "\<exists>i<length (views m).
           v_studentId (views m ! i) = sid
         \<and> list_all (\<lambda>v. v_studentId v \<noteq> sid) (take i (views m))
         \<and> views (addView m sid p now) =
             (views m)[i := (views m ! i)
               \<lparr>v_percentage := max (v_percentage (views m ! i)) (case p of None \<Rightarrow> 0 | Some q \<Rightarrow> q),
                v_date := now\<rparr>]"
proof -
  from assms have "\<exists>v\<in>set (views m). v_studentId v = sid"
    by auto
  from findIndex_some [OF this] obtain i where
    i: "i < length (views m)" "v_studentId (views m ! i) = sid"
       "list_all (\<lambda>v. v_studentId v \<noteq> sid) (take i (views m))"
       "findIndex (\<lambda>v. v_studentId v = sid) (views m) = int i"
    by blast
  then have "views (addView m sid p now) =
             (views m)[i := (views m ! i)
               \<lparr>v_percentage := max (v_percentage (views m ! i)) (case p of None \<Rightarrow> 0 | Some q \<Rightarrow> q),
                v_date := now\<rparr>]"
    by (simp add: addView_def Let_def)
  with i show ?thesis by blast
qed

lemma addView_ids:
  "map v_studentId (views (addView m sid p now)) =
     (if sid \<in> v_studentId ` set (views m) then map v_studentId (views m)
      else map v_studentId (views m) @ [sid])"
proof (cases "sid \<in> v_studentId ` set (views m)")
  case False
  then show ?thesis by (simp add: addView_first)
next
  case True
  from addView_again [OF True, of p now] obtain i where
    i: "i < length (views m)" "v_studentId (views m ! i) = sid"
    and upd: "views (addView m sid p now) =
             (views m)[i := (views m ! i)
               \<lparr>v_percentage := max (v_percentage (views m ! i)) (case p of None \<Rightarrow> 0 | Some q \<Rightarrow> q),
                v_date := now\<rparr>]"
    by blast
  have "map v_studentId (views (addView m sid p now)) = (map v_studentId (views m))[i := sid]"
    by (simp add: upd map_update i)
  also have "\<dots> = map v_studentId (views m)"
    using i by (metis length_map list_update_id nth_map)
  finally show ?thesis using True by simp
qed

lemma addView_invariant:
  "oneViewPerStudent m \<Longrightarrow> oneViewPerStudent (addView m sid p now)"
  by (auto simp: oneViewPerStudent_def addView_ids)

lemma find_update_same:
  assumes "i < length xs" and "P (xs ! i)" and "list_all (\<lambda>x. \<not> P x) (take i xs)" and "P y"
  shows "find P (xs[i := y]) = Some y"
  using assms
proof (induction xs arbitrary: i)
  case Nil
  then show ?case by simp
next
  case (Cons x xs)
  then show ?case by (cases i) auto
qed

lemma find_first:
  assumes "i < length xs" and "P (xs ! i)" and "list_all (\<lambda>x. \<not> P x) (take i xs)"
  shows "find P xs = Some (xs ! i)"
  using assms
proof (induction xs arbitrary: i)
  case Nil
  then show ?case by simp
next
  case (Cons x xs)
  then show ?case by (cases i) auto
qed

lemma find_append_new:
  "(\<forall>x\<in>set xs. \<not> P x) \<Longrightarrow> P y \<Longrightarrow> find P (xs @ [y]) = Some y"
  by (induction xs) auto

lemma storedPercentage_addView_same:
  "storedPercentage (addView m sid p now) sid =
     Some (case storedPercentage m sid of
             None \<Rightarrow> (case p of None \<Rightarrow> 0 | Some q \<Rightarrow> q)
           | Some old \<Rightarrow> max old (case p of None \<Rightarrow> 0 | Some q \<Rightarrow> q))"
proof (cases "sid \<in> v_studentId ` set (views m)")
  case False
  then have none: "find (\<lambda>v. v_studentId v = sid) (views m) = None"
    by (auto simp: find_None_iff_notin)
  from False have "\<forall>x\<in>set (views m). \<not> v_studentId x = sid" by auto
  then show ?thesis
    by (simp add: storedPercentage_def addView_first [OF False] none find_append_new)
next
  case True
  from addView_again [OF True, of p now] obtain i where
    i: "i < length (views m)" "v_studentId (views m ! i) = sid"
       "list_all (\<lambda>v. v_studentId v \<noteq> sid) (take i (views m))"
    and upd: "views (addView m sid p now) =
             (views m)[i := (views m ! i)
               \<lparr>v_percentage := max (v_percentage (views m ! i)) (case p of None \<Rightarrow> 0 | Some q \<Rightarrow> q),
                v_date := now\<rparr>]"
    by blast
  have old: "find (\<lambda>v. v_studentId v = sid) (views m) = Some (views m ! i)"
    using find_first [of i "views m" "\<lambda>v. v_studentId v = sid"] i by simp
  have new: "find (\<lambda>v. v_studentId v = sid) (views (addView m sid p now)) =
     Some ((views m ! i)
               \<lparr>v_percentage := max (v_percentage (views m ! i)) (case p of None \<Rightarrow> 0 | Some q \<Rightarrow> q),
                v_date := now\<rparr>)"
    unfolding upd
    using find_update_same [of i "views m" "\<lambda>v. v_studentId v = sid"] i by simp
  show ?thesis
    by (simp add: storedPercentage_def old new)
qed

lemma filter_distinct_key:
  "distinct (map f xs) \<Longrightarrow>
     filter (\<lambda>x. f x = a) xs = (case find (\<lambda>x. f x = a) xs of None \<Rightarrow> [] | Some x \<Rightarrow> [x])"
proof (induction xs)
  case Nil
  then show ?case by simp
next
  case (Cons x xs)
  show ?case
  proof (cases "f x = a")
    case True
    with Cons.prems have "\<forall>y\<in>set xs. f y \<noteq> a" by (auto simp: image_iff)
    then have "filter (\<lambda>x. f x = a) xs = []" by (simp add: filter_empty_conv)
    with True show ?thesis by simp
  next
    case False
    with Cons show ?thesis by simp
  qed
qed

lemma filter_update_other:
  "i < length xs \<Longrightarrow> \<not> P (xs ! i) \<Longrightarrow> \<not> P y \<Longrightarrow> filter P (xs[i := y]) = filter P xs"
proof (induction xs arbitrary: i)
  case Nil
  then show ?case by simp
next
  case (Cons x xs)
  then show ?case by (cases i) auto
qed

lemma find_addView_same:
  "find (\<lambda>v. v_studentId v = sid) (views (addView m sid p now)) =
     Some \<lparr>v_studentId = sid,
           v_percentage = (case storedPercentage m sid of
                             None \<Rightarrow> givenPercentage p
                           | Some old \<Rightarrow> max old (givenPercentage p)),
           v_date = now\<rparr>"
proof (cases "sid \<in> v_studentId ` set (views m)")
  case False
  then have none: "find (\<lambda>v. v_studentId v = sid) (views m) = None"
    by (auto simp: find_None_iff_notin)
  from False have "\<forall>x\<in>set (views m). \<not> v_studentId x = sid" by auto
  then show ?thesis
    by (simp add: storedPercentage_def addView_first [OF False] none find_append_new
        givenPercentage_def)
next
  case True
  from addView_again [OF True, of p now] obtain i where
    i: "i < length (views m)" "v_studentId (views m ! i) = sid"
       "list_all (\<lambda>v. v_studentId v \<noteq> sid) (take i (views m))"
    and upd: "views (addView m sid p now) =
             (views m)[i := (views m ! i)
               \<lparr>v_percentage := max (v_percentage (views m ! i)) (case p of None \<Rightarrow> 0 | Some q \<Rightarrow> q),
                v_date := now\<rparr>]"
    by blast
  have old: "find (\<lambda>v. v_studentId v = sid) (views m) = Some (views m ! i)"
    using find_first [of i "views m" "\<lambda>v. v_studentId v = sid"] i by simp
  have new: "find (\<lambda>v. v_studentId v = sid) (views (addView m sid p now)) =
     Some ((views m ! i)
               \<lparr>v_percentage := max (v_percentage (views m ! i)) (case p of None \<Rightarrow> 0 | Some q \<Rightarrow> q),
                v_date := now\<rparr>)"
    unfolding upd
    using find_update_same [of i "views m" "\<lambda>v. v_studentId v = sid"] i by simp
  have "(views m ! i)
               \<lparr>v_percentage := max (v_percentage (views m ! i)) (case p of None \<Rightarrow> 0 | Some q \<Rightarrow> q),
                v_date := now\<rparr>
        = \<lparr>v_studentId = sid,
           v_percentage = max (v_percentage (views m ! i)) (givenPercentage p),
           v_date = now\<rparr>"
    using i(2) by (cases "views m ! i") (simp add: givenPercentage_def)
  with new show ?thesis
    by (simp add: storedPercentage_def old)
qed

lemma viewsOf_addView_other:
  assumes "sid' \<noteq> sid"
  shows "viewsOf (addView m sid p now) sid' = viewsOf m sid'"
proof (cases "sid \<in> v_studentId ` set (views m)")
  case False
  with assms show ?thesis
    by (simp add: viewsOf_def addView_first [OF False])
next
  case True
  from addView_again [OF True, of p now] obtain i where
    i: "i < length (views m)" "v_studentId (views m ! i) = sid"
    and upd: "views (addView m sid p now) =
             (views m)[i := (views m ! i)
               \<lparr>v_percentage := max (v_percentage (views m ! i)) (case p of None \<Rightarrow> 0 | Some q \<Rightarrow> q),
                v_date := now\<rparr>]"
    by blast
  show ?thesis
    unfolding viewsOf_def upd using i assms by (simp add: filter_update_other)
qed

lemma addViews_invariant:
  "oneViewPerStudent m \<Longrightarrow> oneViewPerStudent (addViews m vs)"
  by (induction m vs rule: addViews.induct) (simp_all add: addView_invariant)

lemma freshMedia_invariant: "oneViewPerStudent (addViews freshMedia vs)"
  by (rule addViews_invariant) (simp add: oneViewPerStudent_def freshMedia_def)

text \<open>
  C7. On a media document with at most one view record per student (as every document
  built by \<^verbatim>\<open>addView\<close> from one without views is, by the two lemmas above), \<^verbatim>\<open>addView\<close>
  keeps at most one record per student and leaves exactly one for the viewer, dated now.
  A first view appends a record with the given percentage; a later view by the same
  student changes no other record and stores the maximum of the old and the new
  percentage, so the stored percentage never decreases. The records of the other students
  are untouched.
\<close>

theorem addView_upsert:
  assumes "oneViewPerStudent m"
  shows "oneViewPerStudent (addView m sid p now)
       \<and> viewsOf (addView m sid p now) sid =
           [\<lparr>v_studentId = sid,
             v_percentage = (case storedPercentage m sid of
                               None \<Rightarrow> givenPercentage p
                             | Some old \<Rightarrow> max old (givenPercentage p)),
             v_date = now\<rparr>]
       \<and> (storedPercentage m sid = None \<longrightarrow>
            views (addView m sid p now) =
              views m @ [\<lparr>v_studentId = sid, v_percentage = givenPercentage p, v_date = now\<rparr>])
       \<and> (\<forall>old. storedPercentage m sid = Some old \<longrightarrow>
            length (views (addView m sid p now)) = length (views m)
            \<and> storedPercentage (addView m sid p now) sid = Some (max old (givenPercentage p))
            \<and> old \<le> max old (givenPercentage p))
       \<and> (\<forall>sid'. sid' \<noteq> sid \<longrightarrow> viewsOf (addView m sid p now) sid' = viewsOf m sid')"
proof -
  have inv: "oneViewPerStudent (addView m sid p now)"
    using assms by (rule addView_invariant)
  have one: "viewsOf (addView m sid p now) sid =
           [\<lparr>v_studentId = sid,
             v_percentage = (case storedPercentage m sid of
                               None \<Rightarrow> givenPercentage p
                             | Some old \<Rightarrow> max old (givenPercentage p)),
             v_date = now\<rparr>]"
    unfolding viewsOf_def
    using filter_distinct_key [OF inv [unfolded oneViewPerStudent_def], of sid]
    by (simp add: find_addView_same)
  have first: "storedPercentage m sid = None \<longrightarrow>
            views (addView m sid p now) =
              views m @ [\<lparr>v_studentId = sid, v_percentage = givenPercentage p, v_date = now\<rparr>]"
  proof
    assume "storedPercentage m sid = None"
    then have "sid \<notin> v_studentId ` set (views m)"
      by (auto simp: storedPercentage_def find_None_iff_notin)
    then show "views (addView m sid p now) =
              views m @ [\<lparr>v_studentId = sid, v_percentage = givenPercentage p, v_date = now\<rparr>]"
      by (simp add: addView_first givenPercentage_def)
  qed
  have later: "\<forall>old. storedPercentage m sid = Some old \<longrightarrow>
            length (views (addView m sid p now)) = length (views m)
            \<and> storedPercentage (addView m sid p now) sid = Some (max old (givenPercentage p))
            \<and> old \<le> max old (givenPercentage p)"
  proof (intro allI impI)
    fix old
    assume old: "storedPercentage m sid = Some old"
    then have "find (\<lambda>v. v_studentId v = sid) (views m) \<noteq> None"
      by (auto simp: storedPercentage_def)
    then have mem: "sid \<in> v_studentId ` set (views m)"
      by (auto simp: find_None_iff_notin)
    from addView_again [OF mem, of p now] have len:
      "length (views (addView m sid p now)) = length (views m)"
      by auto
    have "storedPercentage (addView m sid p now) sid = Some (max old (givenPercentage p))"
      by (simp add: storedPercentage_addView_same old givenPercentage_def)
    with len show "length (views (addView m sid p now)) = length (views m)
            \<and> storedPercentage (addView m sid p now) sid = Some (max old (givenPercentage p))
            \<and> old \<le> max old (givenPercentage p)"
      by simp
  qed
  have others: "\<forall>sid'. sid' \<noteq> sid \<longrightarrow> viewsOf (addView m sid p now) sid' = viewsOf m sid'"
    by (simp add: viewsOf_addView_other)
  from inv one first later others show ?thesis by blast
qed

text \<open>
  The example: amy views with 40, then 30, then 90; the stored percentage is 40, 40 and
  then 90, in a single record.
\<close>

theorem addView_upsert_witness:
  "storedPercentage (addViews freshMedia [(''amy'', Some 40, 1)]) ''amy'' = Some 40
   \<and> storedPercentage (addViews freshMedia [(''amy'', Some 40, 1), (''amy'', Some 30, 2)]) ''amy''
        = Some 40
   \<and> storedPercentage
        (addViews freshMedia [(''amy'', Some 40, 1), (''amy'', Some 30, 2), (''amy'', Some 90, 3)])
        ''amy'' = Some 90
   \<and> viewsOf
        (addViews freshMedia [(''amy'', Some 40, 1), (''amy'', Some 30, 2), (''amy'', Some 90, 3)])
        ''amy'' = [\<lparr>v_studentId = ''amy'', v_percentage = 90, v_date = 3\<rparr>]"
proof -
  let ?m1 = "addView freshMedia ''amy'' (Some 40) 1"
  let ?m2 = "addView ?m1 ''amy'' (Some 30) 2"
  let ?m3 = "addView ?m2 ''amy'' (Some 90) 3"
  have i0: "oneViewPerStudent freshMedia"
    by (simp add: oneViewPerStudent_def freshMedia_def)
  have s0: "storedPercentage freshMedia ''amy'' = None"
    by (simp add: storedPercentage_def freshMedia_def)
  from addView_upsert [OF i0, of "''amy''" "Some 40" 1] s0
  have i1: "oneViewPerStudent ?m1"
    and v1: "viewsOf ?m1 ''amy'' = [\<lparr>v_studentId = ''amy'', v_percentage = 40, v_date = 1\<rparr>]"
    and w1: "views ?m1 = [\<lparr>v_studentId = ''amy'', v_percentage = 40, v_date = 1\<rparr>]"
    by (simp_all add: givenPercentage_def freshMedia_def)
  from w1 have s1: "storedPercentage ?m1 ''amy'' = Some 40"
    by (simp add: storedPercentage_def)
  from addView_upsert [OF i1, of "''amy''" "Some 30" 2] s1
  have i2: "oneViewPerStudent ?m2"
    and s2: "storedPercentage ?m2 ''amy'' = Some 40"
    by (simp_all add: givenPercentage_def)
  from addView_upsert [OF i2, of "''amy''" "Some 90" 3] s2
  have s3: "storedPercentage ?m3 ''amy'' = Some 90"
    and v3: "viewsOf ?m3 ''amy'' = [\<lparr>v_studentId = ''amy'', v_percentage = 90, v_date = 3\<rparr>]"
    by (simp_all add: givenPercentage_def)
  from s1 s2 s3 v3 show ?thesis by simp
qed

subsection \<open>Time windows\<close>

text \<open>
  C8, as amended. Week is now minus 7 days in every endpoint. Month is now minus 30 days
  in the two report endpoints and the start of the current calendar month in the
  practice-stats endpoint. Quarter is now minus 90 days in the two report endpoints; the
  practice-stats endpoint has no quarter case and falls back to its default, now minus 7
  days. Year is the start of the current calendar year in the student progress report and
  in the practice-stats endpoint. Day is the start of the current calendar day in the
  practice-stats endpoint; the report endpoints have no day case and fall back to their
  default, now minus 30 days.
\<close>

theorem startDate_per_endpoint:
  "getStudentProgressReport_startDate (Some ''week'') now = daysBefore now 7
   \<and> getClassAnalytics_startDate (Some ''week'') now = daysBefore now 7
   \<and> getPracticeStats_startDate (Some ''week'') now = daysBefore now 7
   \<and> getStudentProgressReport_startDate (Some ''month'') now = daysBefore now 30
   \<and> getClassAnalytics_startDate (Some ''month'') now = daysBefore now 30
   \<and> getPracticeStats_startDate (Some ''month'') now
        = AtLocalMidnight (getFullYear now) (getMonth now) 1
   \<and> getStudentProgressReport_startDate (Some ''quarter'') now = daysBefore now 90
   \<and> getClassAnalytics_startDate (Some ''quarter'') now = daysBefore now 90
   \<and> getPracticeStats_startDate (Some ''quarter'') now = daysBefore now 7
   \<and> getStudentProgressReport_startDate (Some ''year'') now
        = AtLocalMidnight (getFullYear now) 0 1
   \<and> getPracticeStats_startDate (Some ''year'') now = AtLocalMidnight (getFullYear now) 0 1
   \<and> getPracticeStats_startDate (Some ''day'') now
        = AtLocalMidnight (getFullYear now) (getMonth now) (getDate now)
   \<and> getStudentProgressReport_startDate (Some ''day'') now = daysBefore now 30
   \<and> getClassAnalytics_startDate (Some ''day'') now = daysBefore now 30"
  by (simp add: getStudentProgressReport_startDate_def getClassAnalytics_startDate_def
      getPracticeStats_startDate_def daysBefore_def)

text \<open>
  As stated, C8 makes quarter now minus 90 days and day the start of the calendar day for
  every period token, whatever the endpoint. At the clock below the practice-stats endpoint
  answers quarter with now minus 7 days, and the student progress report answers day with
  now minus 30 days.
\<close>

theorem startDate_per_endpoint_counterexample:
  "getPracticeStats_startDate (Some ''quarter'') exampleNow = AtTime 1799395200000
   \<and> daysBefore exampleNow 90 = AtTime 1792224000000
   \<and> getPracticeStats_startDate (Some ''quarter'') exampleNow \<noteq> daysBefore exampleNow 90
   \<and> getStudentProgressReport_startDate (Some ''day'') exampleNow = AtTime 1797408000000
   \<and> getStudentProgressReport_startDate (Some ''day'') exampleNow \<noteq> AtLocalMidnight 2027 0 15"
  by (simp add: getStudentProgressReport_startDate_def getPracticeStats_startDate_def
      daysBefore_def exampleNow_def)

text \<open>An absent period takes the default of the endpoint: month for the reports, week for
  the practice statistics.\<close>

lemma startDate_default:
  "getStudentProgressReport_startDate None now = daysBefore now 30"
  "getClassAnalytics_startDate None now = daysBefore now 30"
  "getPracticeStats_startDate None now = daysBefore now 7"
  by (simp_all add: getStudentProgressReport_startDate_def getClassAnalytics_startDate_def
      getPracticeStats_startDate_def daysBefore_def)

subsection \<open>Class analytics: student engagement\<close>
















end
